theory Spec2Isabelle
  imports Main "HOL-Library.Sublist"
begin

section \<open>CAT Tiles API: the routing and configuration layer of \<^verbatim>\<open>api.py\<close>\<close>

text \<open>
  \<^verbatim>\<open>api.py\<close> is the whole program: it sets GDAL options in the process environment,
  builds a FastAPI application, registers a logging middleware, hands the routes of a
  TiTiler \<^verbatim>\<open>TilerFactory\<close> to the application, and adds three endpoints of its own
  (\<^verbatim>\<open>/\<close>, \<^verbatim>\<open>/health\<close>, \<^verbatim>\<open>/test-gcs\<close>).

  Conventions of the embedding:
  \<^item> a Python \<^verbatim>\<open>str\<close> is a \<^typ>\<open>string\<close> holding its UTF-8 bytes; the program only
    concatenates strings, compares them with ASCII literals and tests ASCII prefixes,
    and these agree on code points and on UTF-8 bytes;
  \<^item> \<^verbatim>\<open>os.environ\<close> is a map from names to values, passed in and returned;
  \<^item> the module's \<^verbatim>\<open>logger\<close> is a list of records (level, message), oldest first;
    \<^verbatim>\<open>logging.basicConfig(level=logging.INFO)\<close> lets both levels used here through;
  \<^item> what the libraries do (TiTiler's endpoints, \<^verbatim>\<open>rasterio.open\<close>,
    \<^verbatim>\<open>urllib.parse.unquote\<close>, the rest of the middleware chain) is a parameter of the
    function that calls it; the parts of the framework that the program configures
    (the CORS middleware, the resolution of the path dependency) are pictures of
    library code, marked as such where they are defined;
  \<^item> an exception is a value: \<^verbatim>\<open>Inl\<close> of a sum type.
\<close>

subsection \<open>Logging\<close>

datatype level = INFO | ERROR

type_synonym log_record = "level \<times> string"

type_synonym logger = "log_record list"

definition info :: "string \<Rightarrow> logger \<Rightarrow> logger" where
  "info msg lg = lg @ [(INFO, msg)]"

definition error :: "string \<Rightarrow> logger \<Rightarrow> logger" where
  "error msg lg = lg @ [(ERROR, msg)]"

text \<open>The non-ASCII characters of the log messages, as their UTF-8 bytes.\<close>

definition check_mark :: string where
  \<comment> \<open>U+2705\<close>
  "check_mark = [CHR 0xE2, CHR 0x9C, CHR 0x85]"

definition pushpin :: string where
  \<comment> \<open>U+1F4CC\<close>
  "pushpin = [CHR 0xF0, CHR 0x9F, CHR 0x93, CHR 0x8C]"

definition information_sign :: string where
  \<comment> \<open>U+2139 U+FE0F\<close>
  "information_sign = [CHR 0xE2, CHR 0x84, CHR 0xB9, CHR 0xEF, CHR 0xB8, CHR 0x8F]"

definition magnifier :: string where
  \<comment> \<open>U+1F50D\<close>
  "magnifier = [CHR 0xF0, CHR 0x9F, CHR 0x94, CHR 0x8D]"

definition wrench :: string where
  \<comment> \<open>U+1F527\<close>
  "wrench = [CHR 0xF0, CHR 0x9F, CHR 0x94, CHR 0xA7]"

definition cross_mark :: string where
  \<comment> \<open>U+274C\<close>
  "cross_mark = [CHR 0xE2, CHR 0x9D, CHR 0x8C]"

text \<open>\<^verbatim>\<open>str\<close> of a bool and of an optional string, as an f-string renders them.\<close>

definition str_bool :: "bool \<Rightarrow> string" where
  "str_bool b = (if b then ''True'' else ''False'')"

definition str_optional :: "string option \<Rightarrow> string" where
  "str_optional v = (case v of None \<Rightarrow> ''None'' | Some s \<Rightarrow> s)"

text \<open>Truthiness of an optional string: \<^verbatim>\<open>None\<close> and the empty string are false.\<close>

definition truthy :: "string option \<Rightarrow> bool" where
  "truthy v = (case v of None \<Rightarrow> False | Some s \<Rightarrow> s \<noteq> [])"

subsection \<open>Module initialisation (lines 27--54)\<close>

type_synonym environ = "string \<rightharpoonup> string"

text \<open>
  The five assignments to \<^verbatim>\<open>os.environ\<close>, in the order of the source. Each one
  overwrites whatever value the process was started with.
\<close>

definition configure_gdal :: "environ \<Rightarrow> environ" where
  "configure_gdal env =
     env(''GDAL_DISABLE_READDIR_ON_OPEN'' \<mapsto> ''EMPTY_DIR'',
         ''CPL_VSIL_CURL_ALLOWED_EXTENSIONS'' \<mapsto> ''.tif,.tiff'',
         ''GDAL_HTTP_TIMEOUT'' \<mapsto> ''300'',
         ''GDAL_HTTP_CONNECTTIMEOUT'' \<mapsto> ''60'',
         ''GS_NO_SIGN_REQUEST'' \<mapsto> ''YES'')"

text \<open>\<^verbatim>\<open>root_path = os.getenv("FASTAPI_ROOT_PATH", "/cat-tiles")\<close>\<close>

definition root_path :: "environ \<Rightarrow> string" where
  "root_path env = (case env ''FASTAPI_ROOT_PATH'' of None \<Rightarrow> ''/cat-tiles'' | Some p \<Rightarrow> p)"

text \<open>The report on \<^verbatim>\<open>GOOGLE_APPLICATION_CREDENTIALS\<close> (lines 48--54).\<close>

definition log_gcs_creds :: "environ \<Rightarrow> logger \<Rightarrow> logger" where
  "log_gcs_creds env lg =
     (let gcs_creds = env ''GOOGLE_APPLICATION_CREDENTIALS'' in
      if truthy gcs_creds then
        info (pushpin @ '' Will use authenticated access for GCS (credentials take precedence)'')
          (info (check_mark @ '' GCS credentials found: '' @ str_optional gcs_creds) lg)
      else
        info (pushpin @ '' Using anonymous/public access for GCS buckets (GS_NO_SIGN_REQUEST=''
                @ str_optional (env ''GS_NO_SIGN_REQUEST'') @ '')'')
          (info (information_sign @ '' No GOOGLE_APPLICATION_CREDENTIALS set'') lg))"

text \<open>
  Importing the module: the environment is configured first, then the credentials are
  reported. The module-level code after line 54 (warning filter, application object,
  static mount, middleware and route registration) does not write to \<^verbatim>\<open>os.environ\<close>.
\<close>

definition module_init :: "environ \<Rightarrow> logger \<Rightarrow> environ \<times> logger" where
  "module_init env lg = (let env' = configure_gdal env in (env', log_gcs_creds env' lg))"

subsection \<open>The path dependency (lines 206--212)\<close>

text \<open>
  \<^verbatim>\<open>GCSPathParams\<close> logs the value it was given and returns it. It has no branch that
  raises; the result is the pair of the new logger and the returned string.
\<close>

definition GCSPathParams :: "string \<Rightarrow> logger \<Rightarrow> logger \<times> string" where
  "GCSPathParams url lg = (info (wrench @ '' GCSPathParams received: '' @ url) lg, url)"

subsection \<open>The health check (lines 380--392)\<close>

record gdal_config =
  cfg_GDAL_DISABLE_READDIR_ON_OPEN :: "string option"
  cfg_CPL_VSIL_CURL_ALLOWED_EXTENSIONS :: "string option"
  cfg_GS_NO_SIGN_REQUEST :: "string option"

record health =
  status :: string
  message :: string
  gcs_enabled :: bool
  gdal_config :: gdal_config

definition health_check :: "environ \<Rightarrow> health" where
  "health_check env =
     \<lparr> status = ''healthy'',
       message = ''CAT Tiles API is operational'',
       gcs_enabled = (env ''GS_NO_SIGN_REQUEST'' = Some ''YES''),
       gdal_config =
         \<lparr> cfg_GDAL_DISABLE_READDIR_ON_OPEN = env ''GDAL_DISABLE_READDIR_ON_OPEN'',
           cfg_CPL_VSIL_CURL_ALLOWED_EXTENSIONS = env ''CPL_VSIL_CURL_ALLOWED_EXTENSIONS'',
           cfg_GS_NO_SIGN_REQUEST = env ''GS_NO_SIGN_REQUEST'' \<rparr> \<rparr>"

subsection \<open>Requests\<close>

text \<open>
  Of a request the program reads \<^verbatim>\<open>request.url.path\<close> and \<^verbatim>\<open>request.query_params\<close>
  (\<^verbatim>\<open>query_params.get(k)\<close> is the lookup of the map); the framework also reads its
  method and its headers. Header names are held in lower case, as the framework
  compares them.
\<close>

record request =
  http_method :: string
  path :: string
  query_params :: "string \<rightharpoonup> string"
  headers :: "string \<rightharpoonup> string"

subsection \<open>The logging middleware (lines 176--200)\<close>

text \<open>
  \<^verbatim>\<open>request.url.path.startswith(('/tiles/', '/info', '/bounds', '/statistics', '/preview'))\<close>:
  true when one of the five strings is a prefix of the path.
\<close>

definition is_titiler_path :: "string \<Rightarrow> bool" where
  "is_titiler_path p \<longleftrightarrow>
     prefix ''/tiles/'' p \<or> prefix ''/info'' p \<or> prefix ''/bounds'' p
       \<or> prefix ''/statistics'' p \<or> prefix ''/preview'' p"

text \<open>
  The body of the \<^verbatim>\<open>if\<close> of lines 182--197: five log records when the path is one of
  the tiler's and the \<^verbatim>\<open>url\<close> parameter is present and not empty, none otherwise.
  \<^verbatim>\<open>unquote\<close> is \<^verbatim>\<open>urllib.parse.unquote\<close>.
\<close>

definition log_titiler_request :: "(string \<Rightarrow> string) \<Rightarrow> request \<Rightarrow> logger \<Rightarrow> logger" where
  "log_titiler_request unquote request lg =
     (if is_titiler_path (path request) then
        (case query_params request ''url'' of
           None \<Rightarrow> lg
         | Some url_param \<Rightarrow>
             if url_param \<noteq> [] then
               (let decoded_url = unquote url_param;
                    lg1 = info (magnifier @ '' TiTiler request: '' @ path request) lg;
                    lg2 = info (''   Original URL param: '' @ url_param) lg1;
                    lg3 = info (''   Decoded URL: '' @ decoded_url) lg2;
                    is_url = (prefix ''http://'' decoded_url \<or> prefix ''https://'' decoded_url);
                    is_gcs = prefix ''gs://'' decoded_url;
                    is_vsigs = prefix ''/vsigs/'' decoded_url;
                    lg4 = info (''   Flags: url='' @ str_bool is_url @ '', gcs='' @ str_bool is_gcs
                                  @ '', vsigs='' @ str_bool is_vsigs) lg3
                in info (''   '' @ check_mark @ '' Path passed through to TiTiler'') lg4)
             else lg)
      else lg)"


subsection \<open>The framework around the program's functions\<close>







subsection \<open>The test endpoint (lines 398--431)\<close>

text \<open>
  What a call into the raster library may raise: an instance of \<^verbatim>\<open>Exception\<close>, with
  the text \<^verbatim>\<open>str(e)\<close>, or an exception outside \<^verbatim>\<open>Exception\<close> (\<^verbatim>\<open>KeyboardInterrupt\<close>,
  \<^verbatim>\<open>SystemExit\<close>, ...), with the name of its class. \<^verbatim>\<open>except Exception\<close> catches the
  first kind only.
\<close>

datatype py_exception = Exception string | BaseException string

text \<open>
  An open dataset, as the endpoint uses it: five attribute reads, each of which gives a
  value or raises (\<open>crs\<close> is the read of \<^verbatim>\<open>src.crs\<close> followed by \<^verbatim>\<open>str\<close>), and the
  exit of the \<^verbatim>\<open>with\<close> block, which closes the dataset and may raise.
\<close>

record 'b dataset =
  driver :: "py_exception + string"
  width :: "py_exception + int"
  height :: "py_exception + int"
  crs :: "py_exception + string"
  bounds :: "py_exception + 'b"
  exit_raises :: "py_exception option"

text \<open>
  What \<^verbatim>\<open>test_gcs_access\<close> raises: the \<^verbatim>\<open>HTTPException\<close> of lines 428--431, with its
  status code and detail, or an exception that its handler does not catch.
\<close>

datatype raised = HTTPException int string | Propagated py_exception

record 'b gcs_access =
  res_status :: string
  res_url :: string
  res_driver :: string
  res_width :: int
  res_height :: int
  res_crs :: string
  res_bounds :: 'b

text \<open>
  The dictionary of lines 417--425: the attributes are read in the order of the
  source, and the first read that raises ends the evaluation.
\<close>

definition read_attributes :: "'b dataset \<Rightarrow> string \<Rightarrow> py_exception + 'b gcs_access" where
  "read_attributes src test_url =
     (case driver src of Inl e \<Rightarrow> Inl e | Inr d \<Rightarrow>
      case width src of Inl e \<Rightarrow> Inl e | Inr w \<Rightarrow>
      case height src of Inl e \<Rightarrow> Inl e | Inr h \<Rightarrow>
      case crs src of Inl e \<Rightarrow> Inl e | Inr c \<Rightarrow>
      case bounds src of Inl e \<Rightarrow> Inl e | Inr b \<Rightarrow>
        Inr \<lparr> res_status = ''success'', res_url = test_url, res_driver = d,
              res_width = w, res_height = h, res_crs = c, res_bounds = b \<rparr>)"

text \<open>
  The body of the \<^verbatim>\<open>try\<close> (lines 416--425): the open, the reads, and the exit of the
  \<^verbatim>\<open>with\<close> block, which runs whether the reads raised or not; an exception raised by
  the exit replaces the result of the reads.
\<close>

definition open_and_read ::
  "(string \<Rightarrow> py_exception + 'b dataset) \<Rightarrow> string \<Rightarrow> py_exception + 'b gcs_access" where
  "open_and_read rasterio_open test_url =
     (case rasterio_open test_url of
        Inl e \<Rightarrow> Inl e
      | Inr src \<Rightarrow>
          (let body = read_attributes src test_url in
           case exit_raises src of Some e \<Rightarrow> Inl e | None \<Rightarrow> body))"

definition test_gcs_access ::
  "(string \<Rightarrow> py_exception + 'b dataset) \<Rightarrow> string \<Rightarrow> string \<Rightarrow> logger
     \<Rightarrow> logger \<times> (raised + 'b gcs_access)" where
  "test_gcs_access rasterio_open bucket file_path lg =
     (let test_url = ''gs://'' @ bucket @ ''/'' @ file_path in
      case open_and_read rasterio_open test_url of
        Inr result \<Rightarrow> (lg, Inr result)
      | Inl (Exception e) \<Rightarrow>
          (error (cross_mark @ '' Failed to access GCS file: '' @ e) lg,
           Inl (HTTPException 500 (''Failed to access GCS file: '' @ e)))
      | Inl (BaseException c) \<Rightarrow> (lg, Inl (Propagated (BaseException c))))"

text \<open>The defaults of the two query parameters of \<^verbatim>\<open>/test-gcs\<close>.\<close>

definition default_bucket :: string where
  "default_bucket = ''nmfs_odp_pifsc''"

definition default_file_path :: string where
  "default_file_path =
     ''PIFSC/ESD/ARP/StRS_Sites_Products/orthomosaic_cog/2025_GUA-2838_mos_cog.tif''"

definition test_gcs_route ::
  "(string \<Rightarrow> py_exception + 'b dataset) \<Rightarrow> request \<Rightarrow> logger
     \<Rightarrow> logger \<times> (raised + 'b gcs_access)" where
  "test_gcs_route rasterio_open request lg =
     test_gcs_access rasterio_open
       (case query_params request ''bucket'' of None \<Rightarrow> default_bucket | Some b \<Rightarrow> b)
       (case query_params request ''file_path'' of None \<Rightarrow> default_file_path | Some f \<Rightarrow> f)
       lg"

subsection \<open>Concrete inputs\<close>


text \<open>A request for \<^verbatim>\<open>/info\<close> with no \<^verbatim>\<open>Origin\<close> header.\<close>

definition plain_request :: request where
  "plain_request =
     \<lparr> http_method = ''GET'', path = ''/info'',
       query_params = [''url'' \<mapsto> ''gs://b/f.tif''],
       headers = Map.empty \<rparr>"








section \<open>Properties\<close>

subsection \<open>Helper facts\<close>

lemma configure_gdal_timeouts:
  "configure_gdal env ''GDAL_HTTP_TIMEOUT'' = Some ''300''"
  "configure_gdal env ''GDAL_HTTP_CONNECTTIMEOUT'' = Some ''60''"
  by (simp_all add: configure_gdal_def)

lemma configure_gdal_no_sign:
  "configure_gdal env ''GS_NO_SIGN_REQUEST'' = Some ''YES''"
  by (simp add: configure_gdal_def)

lemma module_init_env: "fst (module_init env lg) = configure_gdal env"
  by (simp add: module_init_def Let_def)

text \<open>
  Module initialisation leaves the two timeout options of the raster library in the
  environment, whatever the environment the process was started with. What the
  library does with them on a read is not part of this program.
\<close>

lemma module_init_sets_timeouts:
  "fst (module_init env lg) ''GDAL_HTTP_CONNECTTIMEOUT'' = Some ''60'' \<and>
   fst (module_init env lg) ''GDAL_HTTP_TIMEOUT'' = Some ''300''"
  by (simp add: module_init_env configure_gdal_timeouts)



text \<open>On paths that are not the tiler's, and without a \<^verbatim>\<open>url\<close>, nothing is logged.\<close>

lemma log_titiler_request_silent:
  "\<not> is_titiler_path (path request) \<or> \<not> truthy (query_params request ''url'')
     \<Longrightarrow> log_titiler_request unquote request lg = lg"
  by (auto simp: log_titiler_request_def truthy_def split: option.splits)

text \<open>Two runs of the model on concrete requests.\<close>

lemma log_titiler_request_example:
  "log_titiler_request (\<lambda>u. u) (plain_request \<lparr> path := ''/tiles/1/2/3'' \<rparr>) []
   = [(INFO, magnifier @ '' TiTiler request: /tiles/1/2/3''),
      (INFO, ''   Original URL param: gs://b/f.tif''),
      (INFO, ''   Decoded URL: gs://b/f.tif''),
      (INFO, ''   Flags: url=False, gcs=True, vsigs=False''),
      (INFO, ''   '' @ check_mark @ '' Path passed through to TiTiler'')]"
  by (simp add: log_titiler_request_def is_titiler_path_def info_def str_bool_def Let_def
        plain_request_def)

lemma log_titiler_request_example_other_path:
  "log_titiler_request (\<lambda>u. u)
     (plain_request \<lparr> path := ''/WebMercatorQuad/tiles/1/2/3'' \<rparr>) [] = []"
  by (simp add: log_titiler_request_def is_titiler_path_def plain_request_def)







lemma open_and_read_all_fine:
  "rasterio_open u = Inr src \<Longrightarrow> driver src = Inr d \<Longrightarrow> width src = Inr w
     \<Longrightarrow> height src = Inr h \<Longrightarrow> crs src = Inr c \<Longrightarrow> bounds src = Inr b
     \<Longrightarrow> exit_raises src = None
     \<Longrightarrow> open_and_read rasterio_open u =
           Inr \<lparr> res_status = ''success'', res_url = u, res_driver = d,
                 res_width = w, res_height = h, res_crs = c, res_bounds = b \<rparr>"
  by (simp add: open_and_read_def read_attributes_def)





subsection \<open>The wrapper and the tiler\<close>




subsection \<open>The path dependency is the identity\<close>

text \<open>
  Claim C8. \<^verbatim>\<open>GCSPathParams\<close> returns its \<^verbatim>\<open>url\<close> argument unchanged, for every string:
  it has no validation, no rewriting and no rejecting branch, and its only effect is
  one record at the end of the logger.
\<close>

theorem GCSPathParams_identity:
  "snd (GCSPathParams url lg) = url \<and>
   fst (GCSPathParams url lg) = lg @ [(INFO, wrench @ '' GCSPathParams received: '' @ url)]"
  by (simp add: GCSPathParams_def info_def)

subsection \<open>The health check\<close>

text \<open>
  Claim C9. \<^verbatim>\<open>health_check\<close> always answers with status \<^verbatim>\<open>healthy\<close>; its field
  \<^verbatim>\<open>gcs_enabled\<close> is true exactly when \<^verbatim>\<open>GS_NO_SIGN_REQUEST\<close> is \<^verbatim>\<open>YES\<close> in the environment;
  and in the environment that module initialisation leaves, whatever it started from,
  the field is true.
\<close>

theorem health_check_gcs_enabled:
  "status (health_check env) = ''healthy'' \<and>
   (gcs_enabled (health_check env) \<longleftrightarrow> env ''GS_NO_SIGN_REQUEST'' = Some ''YES'') \<and>
   gcs_enabled (health_check (fst (module_init env0 lg)))"
  by (simp add: health_check_def module_init_env configure_gdal_no_sign)

text \<open>
  At a process started with \<^verbatim>\<open>GS_NO_SIGN_REQUEST=NO\<close>: the field would be false on
  that environment, and is true after initialisation.
\<close>

theorem health_check_gcs_enabled_witness:
  "status (health_check [''GS_NO_SIGN_REQUEST'' \<mapsto> ''NO'']) = ''healthy'' \<and>
   \<not> gcs_enabled (health_check [''GS_NO_SIGN_REQUEST'' \<mapsto> ''NO'']) \<and>
   gcs_enabled (health_check (fst (module_init [''GS_NO_SIGN_REQUEST'' \<mapsto> ''NO''] [])))"
  using health_check_gcs_enabled
    [of "[''GS_NO_SIGN_REQUEST'' \<mapsto> ''NO'']" "[''GS_NO_SIGN_REQUEST'' \<mapsto> ''NO'']" "[]"]
  by simp

subsection \<open>The test endpoint\<close>




end
